theory Spec2Isabelle
  imports Main
begin

section \<open>Text\<close>

text \<open>
  A Python \<open>str\<close> is a sequence of Unicode code points. Cell text and attribute values
  are modelled as lists of code points (\<open>nat\<close>), so that slicing off the last character
  (\<open>s[:-1]\<close>) removes one code point whatever its encoding. Tag names, attribute names,
  currency codes and log messages are only ever compared with ASCII literals of the
  program and are modelled as HOL strings.
\<close>

type_synonym pystr = "nat list"

definition ascii :: "string \<Rightarrow> pystr" where
  "ascii s = map of_char s"

text \<open>\<open>str.isspace\<close> on one code point (the Unicode whitespace characters).\<close>

definition py_isspace :: "nat \<Rightarrow> bool" where
  "py_isspace c \<longleftrightarrow>
     (9 \<le> c \<and> c \<le> 13) \<or> (28 \<le> c \<and> c \<le> 32) \<or> c = 133 \<or> c = 160 \<or> c = 5760 \<or>
     (8192 \<le> c \<and> c \<le> 8202) \<or> c = 8232 \<or> c = 8233 \<or> c = 8239 \<or> c = 8287 \<or> c = 12288"

text \<open>\<open>str.strip()\<close>: leading and trailing whitespace removed.\<close>

definition py_strip :: "pystr \<Rightarrow> pystr" where
  "py_strip s = rev (dropWhile py_isspace (rev (dropWhile py_isspace s)))"

section \<open>Errors\<close>

text \<open>
  The exceptions that the program can raise or catch. \<open>Exception\<close> carries the message of
  the two \<open>raise Exception(...)\<close> statements of \<open>extract\<close>; \<open>KeyError\<close> carries the key.
\<close>

datatype py_error =
    IndexError
  | KeyError string
  | TypeError
  | ValueError
  | Exception string

section \<open>Floating-point numbers\<close>

text \<open>
  Python's \<open>float\<close> and NumPy's \<open>float64\<close> are IEEE 754 binary64 numbers. A finite
  number is kept as mantissa and exponent, with value \<open>mant * 2 ^ expo\<close>, in the
  encoding's own normal form: \<open>2^52 \<le> |mant| < 2^53\<close> and \<open>-1074 \<le> expo \<le> 971\<close> for a
  normal number, \<open>|mant| < 2^52\<close> and \<open>expo = -1074\<close> for a subnormal number or zero.
  So equal numbers are equal terms. The sign of zero is not kept (Python's \<open>==\<close> does not
  see it either).
\<close>

datatype float64 = Finite (mant: int) (expo: int) | PosInf | NegInf | NaN

text \<open>The number of binary digits of a positive integer (\<open>int.bit_length\<close>).\<close>

function bit_length :: "int \<Rightarrow> nat" where
  "bit_length n = (if n \<le> 0 then 0 else Suc (bit_length (n div 2)))"
  by pat_completeness auto
termination
  by (relation "measure nat") auto

declare bit_length.simps [simp del]

text \<open>The integer part of the binary logarithm of \<open>a / d\<close>, for positive \<open>a\<close> and \<open>d\<close>.\<close>

definition floor_log2 :: "int \<Rightarrow> int \<Rightarrow> int" where
  "floor_log2 a d =
     (let k = int (bit_length a) - int (bit_length d)
      in if (if 0 \<le> k then d * 2 ^ nat k \<le> a else d \<le> a * 2 ^ nat (- k)) then k else k - 1)"

text \<open>The integer nearest to \<open>n / d\<close> (\<open>d\<close> positive), a tie going to the even one.\<close>

definition round_half_even :: "int \<Rightarrow> int \<Rightarrow> int" where
  "round_half_even n d =
     (let q = n div d; r = n mod d
      in if 2 * r < d then q else if d < 2 * r then q + 1 else if even q then q else q + 1)"

text \<open>
  The binary64 number nearest to the rational \<open>n / d\<close> (\<open>d\<close> positive), ties to even:
  the rounding that every arithmetic operation and the conversion from a decimal
  literal perform. A result of magnitude \<open>2^1024\<close> or more is an infinity.
\<close>

definition binary64 :: "int \<Rightarrow> int \<Rightarrow> float64" where
  "binary64 n d =
     (if n = 0 then Finite 0 (- 1074)
      else
        let a = \<bar>n\<bar>;
            e = max (floor_log2 a d - 52) (- 1074);
            q = (if 0 \<le> e then round_half_even a (d * 2 ^ nat e)
                 else round_half_even (a * 2 ^ nat (- e)) d);
            e' = (if q = 2 ^ 53 then e + 1 else e);
            q' = (if q = 2 ^ 53 then 2 ^ 52 else q)
        in if 971 < e' then (if 0 < n then PosInf else NegInf)
           else Finite (sgn n * q') e')"

text \<open>The product \<open>x * y\<close> of two floats.\<close>

fun fmul :: "float64 \<Rightarrow> float64 \<Rightarrow> float64" where
  "fmul NaN _ = NaN"
| "fmul _ NaN = NaN"
| "fmul (Finite m1 e1) (Finite m2 e2) =
     (if 0 \<le> e1 + e2 then binary64 (m1 * m2 * 2 ^ nat (e1 + e2)) 1
      else binary64 (m1 * m2) (2 ^ nat (- (e1 + e2))))"
| "fmul (Finite m e) PosInf = (if m = 0 then NaN else if 0 < m then PosInf else NegInf)"
| "fmul (Finite m e) NegInf = (if m = 0 then NaN else if 0 < m then NegInf else PosInf)"
| "fmul PosInf (Finite m e) = (if m = 0 then NaN else if 0 < m then PosInf else NegInf)"
| "fmul NegInf (Finite m e) = (if m = 0 then NaN else if 0 < m then NegInf else PosInf)"
| "fmul PosInf PosInf = PosInf"
| "fmul PosInf NegInf = NegInf"
| "fmul NegInf PosInf = NegInf"
| "fmul NegInf NegInf = PosInf"

text \<open>The quotient \<open>x / y\<close> of NumPy's \<open>true_divide\<close> (a zero divisor gives no exception).\<close>

fun fdiv :: "float64 \<Rightarrow> float64 \<Rightarrow> float64" where
  "fdiv NaN _ = NaN"
| "fdiv _ NaN = NaN"
| "fdiv (Finite m1 e1) (Finite m2 e2) =
     (if m2 = 0 then (if m1 = 0 then NaN else if 0 < m1 then PosInf else NegInf)
      else if 0 \<le> e1 - e2 then binary64 (sgn m2 * m1 * 2 ^ nat (e1 - e2)) \<bar>m2\<bar>
      else binary64 (sgn m2 * m1) (\<bar>m2\<bar> * 2 ^ nat (e2 - e1)))"
| "fdiv (Finite m e) PosInf = Finite 0 (- 1074)"
| "fdiv (Finite m e) NegInf = Finite 0 (- 1074)"
| "fdiv PosInf (Finite m e) = (if 0 \<le> m then PosInf else NegInf)"
| "fdiv NegInf (Finite m e) = (if 0 \<le> m then NegInf else PosInf)"
| "fdiv PosInf PosInf = NaN"
| "fdiv PosInf NegInf = NaN"
| "fdiv NegInf PosInf = NaN"
| "fdiv NegInf NegInf = NaN"

text \<open>\<open>numpy.rint\<close>: the nearest integer, a tie going to the even one.\<close>

fun rint :: "float64 \<Rightarrow> float64" where
  "rint (Finite m e) =
     (if 0 \<le> e then Finite m e else binary64 (round_half_even m (2 ^ nat (- e))) 1)"
| "rint x = x"

text \<open>
  \<open>numpy.round(x, decimals)\<close> for \<open>decimals \<ge> 0\<close>. NumPy documents it as
  \<open>true_divide(rint(x * 10**decimals), 10**decimals)\<close>, and \<open>rint\<close> alone for
  \<open>decimals = 0\<close>.
\<close>

definition np_round :: "float64 \<Rightarrow> nat \<Rightarrow> float64" where
  "np_round x decimals =
     (if decimals = 0 then rint x
      else let f = binary64 (10 ^ decimals) 1 in fdiv (rint (fmul x f)) f)"

subsection \<open>Reading a float from text\<close>

text \<open>
  \<open>float(s)\<close> for a string. Every code point from 127 on is first replaced: a Unicode
  space by an ASCII space, a Unicode decimal digit by its ASCII digit; any other one
  makes the conversion fail. ASCII whitespace is then stripped at both ends, underscores
  between digits are removed, and the rest must be, as a whole, a signed decimal
  literal with an optional exponent, or one of \<open>inf\<close>, \<open>infinity\<close>, \<open>nan\<close> in any case.
\<close>

text \<open>The code points of the digit zero of each Unicode decimal number system (Unicode 14).\<close>

definition unicode_decimal_zeros :: "nat list" where
  "unicode_decimal_zeros =
     [48, 1632, 1776, 1984, 2406, 2534, 2662, 2790, 2918, 3046, 3174, 3302, 3430, 3558,
      3664, 3792, 3872, 4160, 4240, 6112, 6160, 6470, 6608, 6784, 6800, 6992, 7088, 7232,
      7248, 42528, 43216, 43264, 43472, 43504, 43600, 44016, 65296, 66720, 68912, 69734,
      69872, 69942, 70096, 70384, 70736, 70864, 71248, 71360, 71472, 71904, 72016, 72784,
      73040, 73120, 92768, 92864, 93008, 120782, 120792, 120802, 120812, 120822, 123200,
      123632, 125264, 130032]"

definition py_todecimal :: "nat \<Rightarrow> nat option" where
  "py_todecimal c =
     (case List.find (\<lambda>z. z \<le> c \<and> c < z + 10) unicode_decimal_zeros of
        None \<Rightarrow> None
      | Some z \<Rightarrow> Some (c - z))"

definition to_ascii_char :: "nat \<Rightarrow> nat option" where
  "to_ascii_char c =
     (if c < 127 then Some c
      else if py_isspace c then Some 32
      else map_option (\<lambda>d. 48 + d) (py_todecimal c))"

fun to_ascii :: "pystr \<Rightarrow> pystr option" where
  "to_ascii [] = Some []"
| "to_ascii (c # cs) =
     (case to_ascii_char c of
        None \<Rightarrow> None
      | Some a \<Rightarrow> (case to_ascii cs of None \<Rightarrow> None | Some as \<Rightarrow> Some (a # as)))"

definition c_isspace :: "nat \<Rightarrow> bool" where
  "c_isspace c \<longleftrightarrow> (9 \<le> c \<and> c \<le> 13) \<or> c = 32"

definition is_digit :: "nat \<Rightarrow> bool" where
  "is_digit c \<longleftrightarrow> 48 \<le> c \<and> c \<le> 57"

text \<open>
  Underscores: one is allowed only right after a digit and right before a digit.
  \<open>prev\<close> is the character before (0 at the start).
\<close>

fun strip_underscores :: "nat \<Rightarrow> pystr \<Rightarrow> pystr option" where
  "strip_underscores prev [] = (if prev = 95 then None else Some [])"
| "strip_underscores prev (c # cs) =
     (if c = 95 then (if is_digit prev then strip_underscores c cs else None)
      else if prev = 95 \<and> \<not> is_digit c then None
      else map_option (\<lambda>r. c # r) (strip_underscores c cs))"

definition digits_val :: "pystr \<Rightarrow> int" where
  "digits_val ds = foldl (\<lambda>a c. 10 * a + (int c - 48)) 0 ds"

text \<open>An optional sign: whether it is a minus, and the rest.\<close>

fun take_sign :: "pystr \<Rightarrow> bool \<times> pystr" where
  "take_sign [] = (False, [])"
| "take_sign (c # cs) =
     (if c = 45 then (True, cs) else if c = 43 then (False, cs) else (False, c # cs))"

definition ascii_lower :: "nat \<Rightarrow> nat" where
  "ascii_lower c = (if 65 \<le> c \<and> c \<le> 90 then c + 32 else c)"

text \<open>The exponent part: nothing, or \<open>e\<close> or \<open>E\<close>, an optional sign and at least one digit.\<close>

definition parse_exponent :: "pystr \<Rightarrow> int option" where
  "parse_exponent r =
     (case r of
        [] \<Rightarrow> Some 0
      | c # r' \<Rightarrow>
          if c = 101 \<or> c = 69 then
            (case take_sign r' of
               (neg, ds) \<Rightarrow>
                 if ds \<noteq> [] \<and> list_all is_digit ds
                 then Some (if neg then - digits_val ds else digits_val ds)
                 else None)
          else None)"

text \<open>A decimal literal as a pair \<open>(m, x)\<close> that stands for \<open>m * 10 ^ x\<close>.\<close>

definition parse_decimal :: "pystr \<Rightarrow> (int \<times> int) option" where
  "parse_decimal s =
     (case take_sign s of
        (neg, s1) \<Rightarrow>
          let ip = takeWhile is_digit s1;
              r1 = dropWhile is_digit s1;
              fp = (case r1 of [] \<Rightarrow> [] | c # r \<Rightarrow> if c = 46 then takeWhile is_digit r else []);
              r2 = (case r1 of [] \<Rightarrow> [] | c # r \<Rightarrow> if c = 46 then dropWhile is_digit r else r1)
          in if ip = [] \<and> fp = [] then None
             else (case parse_exponent r2 of
                     None \<Rightarrow> None
                   | Some x \<Rightarrow>
                       Some ((if neg then - digits_val (ip @ fp) else digits_val (ip @ fp)),
                             x - int (length fp))))"

definition parse_inf_or_nan :: "pystr \<Rightarrow> float64 option" where
  "parse_inf_or_nan s =
     (case take_sign s of
        (neg, s1) \<Rightarrow>
          let w = map ascii_lower s1
          in if w = ascii ''inf'' \<or> w = ascii ''infinity'' then Some (if neg then NegInf else PosInf)
             else if w = ascii ''nan'' then Some NaN
             else None)"

definition string_to_double :: "pystr \<Rightarrow> float64 option" where
  "string_to_double s =
     (case parse_inf_or_nan s of
        Some v \<Rightarrow> Some v
      | None \<Rightarrow>
          (case parse_decimal s of
             None \<Rightarrow> None
           | Some (m, x) \<Rightarrow>
               Some (if 0 \<le> x then binary64 (m * 10 ^ nat x) 1 else binary64 m (10 ^ nat (- x)))))"

definition py_float :: "pystr \<Rightarrow> py_error + float64" where
  "py_float s =
     (case to_ascii s of
        None \<Rightarrow> Inl ValueError
      | Some a \<Rightarrow>
          let t = rev (dropWhile c_isspace (rev (dropWhile c_isspace a)));
              u = (if 95 \<in> set t then strip_underscores 0 t else Some t)
          in (case u of
                None \<Rightarrow> Inl ValueError
              | Some v \<Rightarrow> (case string_to_double v of None \<Rightarrow> Inl ValueError | Some x \<Rightarrow> Inr x)))"

section \<open>The parsed document\<close>

text \<open>
  The tree that \<open>BeautifulSoup(page, 'html.parser')\<close> returns. A page element is a tag
  (name, attributes, children), a text node (\<open>NavigableString\<close>) or a comment. A comment
  is a string as well, but \<open>get_text\<close> leaves it out. The document itself is a tag
  whose children are the top-level elements. Fetching the page and parsing the markup
  into this tree are done by libraries and are not part of the model.
\<close>

datatype node =
    Tag (name: string) (attrs: "(string \<times> pystr) list") (contents: "node list")
  | NavigableString pystr
  | Comment pystr

fun is_tag :: "node \<Rightarrow> bool" where
  "is_tag (Tag n a cs) = True"
| "is_tag _ = False"

text \<open>\<open>Tag.descendants\<close>: every node below the element, in document order.\<close>

fun descendants :: "node \<Rightarrow> node list" where
  "descendants (Tag n a cs) = concat (map (\<lambda>c. c # descendants c) cs)"
| "descendants (NavigableString s) = []"
| "descendants (Comment s) = []"

text \<open>\<open>el.find_all(nm)\<close>: the descendant tags named \<open>nm\<close>, in document order.\<close>

definition find_all :: "string \<Rightarrow> node \<Rightarrow> node list" where
  "find_all nm el = filter (\<lambda>d. is_tag d \<and> name d = nm) (descendants el)"

text \<open>\<open>el.find(nm)\<close>: the first of them, or \<open>None\<close>.\<close>

definition find_tag :: "string \<Rightarrow> node \<Rightarrow> node option" where
  "find_tag nm el = (case find_all nm el of [] \<Rightarrow> None | t # _ \<Rightarrow> Some t)"

text \<open>
  \<open>el.get_text(strip=strip)\<close>: the text nodes below the element, joined without a
  separator. With \<open>strip=True\<close> each text node is stripped on its own and a node that is
  empty after stripping is left out.
\<close>

fun text_piece :: "bool \<Rightarrow> node \<Rightarrow> pystr option" where
  "text_piece strip (NavigableString s) =
     (if strip then (let t = py_strip s in if t = [] then None else Some t) else Some s)"
| "text_piece strip _ = None"

definition get_text :: "bool \<Rightarrow> node \<Rightarrow> pystr" where
  "get_text strip el = concat (List.map_filter (text_piece strip) (descendants el))"

text \<open>\<open>tag[key]\<close>: the value of an attribute; a missing attribute raises \<open>KeyError\<close>.\<close>

definition getitem_attr :: "node \<Rightarrow> string \<Rightarrow> py_error + pystr" where
  "getitem_attr t key =
     (case map_of (attrs t) key of None \<Rightarrow> Inl (KeyError key) | Some v \<Rightarrow> Inr v)"

text \<open>\<open>xs[i]\<close> for a list and an index that is not negative.\<close>

definition py_index :: "'a list \<Rightarrow> nat \<Rightarrow> py_error + 'a" where
  "py_index xs i = (if i < length xs then Inr (xs ! i) else Inl IndexError)"

section \<open>The pipeline\<close>

text \<open>
  A row of the data frame as \<open>extract\<close> builds it, with the columns that the
  orchestrator passes as \<open>table_attribs\<close>, and a row of the frame after \<open>transform\<close>
  has added its three columns.
\<close>

record bank =
  Name :: pystr
  MC_USD_Billion :: float64

record bank_t = bank +
  MC_GBP_Billion :: float64
  MC_EUR_Billion :: float64
  MC_INR_Billion :: float64

text \<open>
  What the program writes: the lines appended to \<open>code_log.txt\<close> (the message of each
  line, without its timestamp), the file \<open>Largest_banks_data.csv\<close> and the table
  \<open>Largest_banks\<close> of \<open>Banks.db\<close>. A sink that has not been written is \<open>None\<close>.
  The rows that \<open>run_query\<close> prints are not modelled.
\<close>

record world =
  code_log :: "string list"
  csv_file :: "bank_t list option"
  db_table :: "bank_t list option"

definition log_progress :: "string \<Rightarrow> world \<Rightarrow> world" where
  "log_progress message w = w\<lparr>code_log := code_log w @ [message]\<rparr>"

subsection \<open>extract\<close>

text \<open>
  The bank name of a cell (lines 60 to 64):
  \<^verbatim>\<open>
  try:
      bank_name = col[1].find_all('a')[1]['title']
  except (IndexError, KeyError, TypeError):
      bank_name = col[1].get_text(strip=True)
  \<close>
\<close>

definition title_of_second_anchor :: "node \<Rightarrow> py_error + pystr" where
  "title_of_second_anchor c =
     (case py_index (find_all ''a'' c) 1 of
        Inl e \<Rightarrow> Inl e
      | Inr a \<Rightarrow> getitem_attr a ''title'')"

definition extract_name :: "node \<Rightarrow> py_error + pystr" where
  "extract_name c =
     (case title_of_second_anchor c of
        Inr bank_name \<Rightarrow> Inr bank_name
      | Inl e \<Rightarrow>
          (case e of
             IndexError \<Rightarrow> Inr (get_text True c)
           | KeyError k \<Rightarrow> Inr (get_text True c)
           | TypeError \<Rightarrow> Inr (get_text True c)
           | _ \<Rightarrow> Inl e))"

text \<open>
  \<open>raw[:-1]\<close> for a child node. On a string it drops the last character; on a tag the
  subscript is an attribute lookup with a slice for a key, which raises \<open>TypeError\<close>
  (\<open>KeyError\<close> from Python 3.12 on: in both cases an exception that the handler below
  does not catch).
\<close>

fun drop_last_char :: "node \<Rightarrow> py_error + pystr" where
  "drop_last_char (NavigableString s) = Inr (butlast s)"
| "drop_last_char (Comment s) = Inr (butlast s)"
| "drop_last_char (Tag n a cs) = Inl TypeError"

text \<open>
  The market capitalisation of a cell (lines 68 to 74):
  \<^verbatim>\<open>
  try:
      raw_market_cap = col[2].contents[0]
      market_cap_str = raw_market_cap[:-1]
      market_cap_float = float(market_cap_str)
  except (IndexError, ValueError):
      market_cap_float = 0.0
  \<close>
\<close>

definition parse_market_cap :: "node \<Rightarrow> py_error + float64" where
  "parse_market_cap c =
     (case py_index (contents c) 0 of
        Inl e \<Rightarrow> Inl e
      | Inr raw_market_cap \<Rightarrow>
          (case drop_last_char raw_market_cap of
             Inl e \<Rightarrow> Inl e
           | Inr market_cap_str \<Rightarrow> py_float market_cap_str))"

definition extract_market_cap :: "node \<Rightarrow> py_error + float64" where
  "extract_market_cap c =
     (case parse_market_cap c of
        Inr market_cap_float \<Rightarrow> Inr market_cap_float
      | Inl e \<Rightarrow>
          (case e of
             IndexError \<Rightarrow> Inr (Finite 0 (- 1074))
           | ValueError \<Rightarrow> Inr (Finite 0 (- 1074))
           | _ \<Rightarrow> Inl e))"

text \<open>
  The body of the loop over the rows (lines 53 to 84): the row to append, \<open>None\<close> when
  the row is skipped, or the exception that leaves the loop.
\<close>

definition extract_row :: "node \<Rightarrow> py_error + bank option" where
  "extract_row row =
     (if find_tag ''td'' row \<noteq> None then
        let col = find_all ''td'' row
        in if length col < 3 then Inr None
           else (case extract_name (col ! 1) of
                   Inl e \<Rightarrow> Inl e
                 | Inr bank_name \<Rightarrow>
                     (case extract_market_cap (col ! 2) of
                        Inl e \<Rightarrow> Inl e
                      | Inr market_cap_float \<Rightarrow>
                          Inr (Some \<lparr>Name = bank_name, MC_USD_Billion = market_cap_float\<rparr>)))
      else Inr None)"

text \<open>
  An eligible row is one that passes the two guards of the loop (lines 53 and 56): it
  has a data cell, and not fewer than three of them.
\<close>

definition eligible :: "node \<Rightarrow> bool" where
  "eligible row \<longleftrightarrow> find_tag ''td'' row \<noteq> None \<and> \<not> length (find_all ''td'' row) < 3"

text \<open>The loop, with the data frame built so far.\<close>

fun extract_rows :: "node list \<Rightarrow> bank list \<Rightarrow> py_error + bank list" where
  "extract_rows [] df = Inr df"
| "extract_rows (row # rows) df =
     (case extract_row row of
        Inl e \<Rightarrow> Inl e
      | Inr None \<Rightarrow> extract_rows rows df
      | Inr (Some r) \<Rightarrow> extract_rows rows (df @ [r]))"

text \<open>
  The function \<open>extract\<close>, from the parsed page on: the result or the exception that
  it raises, and the world after it. (\<open>extract\<close> is a command of Isabelle, hence the
  longer name.)
\<close>

definition extract_banks :: "node \<Rightarrow> world \<Rightarrow> (py_error + bank list) \<times> world" where
  "extract_banks soup w =
     (let w1 = log_progress ''Starting data extraction.'' w;
          tables = find_all ''tbody'' soup
      in if tables = [] then (Inl (Exception ''No <tbody> found in the page''), w1)
         else
           let rows = find_all ''tr'' (tables ! 0)
           in if rows = [] then (Inl (Exception ''No <tr> rows found in the first <tbody>''), w1)
              else (case extract_rows rows [] of
                      Inl e \<Rightarrow> (Inl e, w1)
                    | Inr df \<Rightarrow>
                        (Inr df,
                         log_progress
                           ''Data extraction complete. Initiating Transformation process.'' w1)))"

subsection \<open>transform\<close>

text \<open>
  One of the three list comprehensions (lines 104 to 106), for the currency \<open>code\<close>:
  \<^verbatim>\<open>[np.round(x * exchange_rate[code], 2) for x in df['MC_USD_Billion']]\<close>
  The rate is looked up once for every element, so not at all for an empty column.
\<close>

fun convert_column :: "(string \<rightharpoonup> float64) \<Rightarrow> string \<Rightarrow> float64 list \<Rightarrow> py_error + float64 list" where
  "convert_column exchange_rate code [] = Inr []"
| "convert_column exchange_rate code (x # xs) =
     (case exchange_rate code of
        None \<Rightarrow> Inl (KeyError code)
      | Some rate \<Rightarrow>
          (case convert_column exchange_rate code xs of
             Inl e \<Rightarrow> Inl e
           | Inr ys \<Rightarrow> Inr (np_round (fmul x rate) 2 # ys)))"

fun add_columns :: "bank list \<Rightarrow> float64 list \<Rightarrow> float64 list \<Rightarrow> float64 list \<Rightarrow> bank_t list" where
  "add_columns (r # df) (g # gbp) (e # eur) (i # inr) =
     \<lparr>Name = Name r, MC_USD_Billion = MC_USD_Billion r,
      MC_GBP_Billion = g, MC_EUR_Billion = e, MC_INR_Billion = i\<rparr> # add_columns df gbp eur inr"
| "add_columns _ _ _ _ = []"

text \<open>
  \<open>transform\<close>, from the dictionary \<open>exchange_rate\<close> on (reading it from the CSV file
  is done by the library).
\<close>

definition transform ::
  "bank list \<Rightarrow> (string \<rightharpoonup> float64) \<Rightarrow> world \<Rightarrow> (py_error + bank_t list) \<times> world" where
  "transform df exchange_rate w =
     (let w1 = log_progress ''Starting data transformation.'' w;
          usd = map MC_USD_Billion df
      in case convert_column exchange_rate ''GBP'' usd of
           Inl e \<Rightarrow> (Inl e, w1)
         | Inr gbp \<Rightarrow>
             (case convert_column exchange_rate ''EUR'' usd of
                Inl e \<Rightarrow> (Inl e, w1)
              | Inr eur \<Rightarrow>
                  (case convert_column exchange_rate ''INR'' usd of
                     Inl e \<Rightarrow> (Inl e, w1)
                   | Inr inr \<Rightarrow>
                       (Inr (add_columns df gbp eur inr),
                        log_progress
                          ''Data transformation complete. Initiating Loading process.'' w1))))"

subsection \<open>The sinks and the orchestrator\<close>

definition load_to_csv :: "bank_t list \<Rightarrow> world \<Rightarrow> world" where
  "load_to_csv df w =
     log_progress ''Data saved to CSV file.''
       ((log_progress ''Saving data to CSV.'' w)\<lparr>csv_file := Some df\<rparr>)"

definition load_to_db :: "bank_t list \<Rightarrow> world \<Rightarrow> world" where
  "load_to_db df w =
     log_progress ''Data loaded to Database as a table, Executing queries.''
       ((log_progress ''Saving data to Database.'' w)\<lparr>db_table := Some df\<rparr>)"

definition run_query :: "string \<Rightarrow> world \<Rightarrow> world" where
  "run_query query_statement w =
     log_progress ''Query execution completed''
       (log_progress (''Executing Query: '' @ query_statement) w)"

text \<open>
  The \<open>__main__\<close> block: the exception that ends the run, if any, and the world after
  the run. An exception of \<open>extract\<close> or \<open>transform\<close> is not caught, so the statements
  after the call are not run.
\<close>

definition main :: "node \<Rightarrow> (string \<rightharpoonup> float64) \<Rightarrow> world \<Rightarrow> py_error option \<times> world" where
  "main soup exchange_rate w =
     (let w1 = log_progress ''Preliminaries complete. Initiating ETL process.'' w
      in case extract_banks soup w1 of
           (Inl e, w2) \<Rightarrow> (Some e, w2)
         | (Inr df_extracted, w2) \<Rightarrow>
             (case transform df_extracted exchange_rate w2 of
                (Inl e, w3) \<Rightarrow> (Some e, w3)
              | (Inr df_transformed, w3) \<Rightarrow>
                  let w4 = load_to_csv df_transformed w3;
                      w5 = load_to_db df_transformed w4;
                      w6 = run_query ''SELECT * FROM Largest_banks'' w5;
                      w7 = run_query ''SELECT AVG(MC_GBP_Billion) FROM Largest_banks'' w6;
                      w8 = run_query ''SELECT Name FROM Largest_banks LIMIT 5'' w7
                  in (None, log_progress ''Server Connection closed. Process Complete.'' w8)))"

section \<open>The specification's wording of the fallback name\<close>


section \<open>Example inputs\<close>

text \<open>Markup written as trees: a text node, a cell, a row, and a page with one table.\<close>

definition str_node :: "string \<Rightarrow> node" where
  "str_node s = NavigableString (ascii s)"

definition td :: "node list \<Rightarrow> node" where
  "td cs = Tag ''td'' [] cs"

definition tr :: "node list \<Rightarrow> node" where
  "tr cs = Tag ''tr'' [] cs"

definition page_of_rows :: "node list \<Rightarrow> node" where
  "page_of_rows rows = Tag ''[document]'' [] [Tag ''table'' [] [Tag ''tbody'' [] rows]]"

definition initial_world :: world where
  "initial_world = \<lparr>code_log = [], csv_file = None, db_table = None\<rparr>"

text \<open>
  The two rows of the end-to-end example. Row A has the cells \<open>1\<close>,
  \<open><a><a title='Global Bank'>GB</a></a>\<close> and \<open>100.5\<close> followed by a dagger (code point
  8224); row B has the cells \<open>2\<close>, \<open><span>Local Bank</span>\<close> and \<open>bad\<close>.
\<close>

definition row_A :: node where
  "row_A = tr
     [td [str_node ''1''],
      td [Tag ''a'' [] [Tag ''a'' [(''title'', ascii ''Global Bank'')] [str_node ''GB'']]],
      td [NavigableString (ascii ''100.5'' @ [8224])]]"

definition row_B :: node where
  "row_B = tr
     [td [str_node ''2''],
      td [Tag ''span'' [] [str_node ''Local Bank'']],
      td [str_node ''bad'']]"

definition example_page :: node where
  "example_page = page_of_rows [row_A, row_B]"

text \<open>The rate table \<open>{GBP: 0.8, EUR: 0.9, INR: 80.0}\<close>.\<close>

definition example_rates :: "string \<rightharpoonup> float64" where
  "example_rates =
     [''GBP'' \<mapsto> binary64 8 10, ''EUR'' \<mapsto> binary64 9 10, ''INR'' \<mapsto> binary64 80 1]"

text \<open>The same table without the rate of the euro.\<close>

definition rates_without_EUR :: "string \<rightharpoonup> float64" where
  "rates_without_EUR = [''GBP'' \<mapsto> binary64 8 10, ''INR'' \<mapsto> binary64 80 1]"


text \<open>
  A row whose third cell starts with an element, \<open><td><b>100</b></td>\<close>, and an
  ordinary row, \<open>200\<close> followed by a newline in its third cell.
\<close>

definition row_bold :: node where
  "row_bold = tr
     [td [str_node ''1''], td [str_node ''Bold Bank''], td [Tag ''b'' [] [str_node ''100'']]]"

definition row_good :: node where
  "row_good = tr
     [td [str_node ''2''], td [str_node ''Good Bank''], td [NavigableString (ascii ''200'' @ [10])]]"

definition page_good_then_bold :: node where
  "page_good_then_bold = page_of_rows [row_good, row_bold]"

definition page_bold_then_good :: node where
  "page_bold_then_good = page_of_rows [row_bold, row_good]"



text \<open>A table with a header row only, a page without a table body, and an empty table body.\<close>

definition page_header_only :: node where
  "page_header_only =
     page_of_rows [tr [Tag ''th'' [] [str_node ''Rank''], Tag ''th'' [] [str_node ''Bank name'']]]"

definition page_no_tbody :: node where
  "page_no_tbody = Tag ''[document]'' [] [Tag ''p'' [] [str_node ''No tables here'']]"

definition page_no_rows :: node where
  "page_no_rows = page_of_rows []"

section \<open>Properties of the steps\<close>

subsection \<open>Which exceptions can leave each step\<close>

lemma py_float_error: "py_float s = Inl e \<Longrightarrow> e = ValueError"
  by (auto simp: py_float_def Let_def split: option.splits)

lemma title_of_second_anchor_error:
  "title_of_second_anchor c = Inl e \<Longrightarrow> e = IndexError \<or> e = KeyError ''title''"
  by (auto simp: title_of_second_anchor_def py_index_def getitem_attr_def split: sum.splits option.splits if_splits)

lemma extract_name_total:
  "extract_name c = Inr (case title_of_second_anchor c of Inr t \<Rightarrow> t | Inl e \<Rightarrow> get_text True c)"
proof (cases "title_of_second_anchor c")
  case (Inl e)
  with title_of_second_anchor_error [OF Inl] show ?thesis
    by (auto simp: extract_name_def)
next
  case (Inr t)
  then show ?thesis by (simp add: extract_name_def)
qed

lemma market_cap_no_contents:
  "contents c = [] \<Longrightarrow> extract_market_cap c = Inr (Finite 0 (- 1074))"
  by (simp add: extract_market_cap_def parse_market_cap_def py_index_def)

lemma market_cap_string:
  assumes "contents c = raw # rest" and "raw = NavigableString s \<or> raw = Comment s"
  shows "extract_market_cap c = Inr (case py_float (butlast s) of Inr v \<Rightarrow> v | Inl e \<Rightarrow> Finite 0 (- 1074))"
proof (cases "py_float (butlast s)")
  case (Inl e)
  with py_float_error [OF Inl] assms show ?thesis
    by (auto simp: extract_market_cap_def parse_market_cap_def py_index_def)
next
  case (Inr v)
  with assms show ?thesis
    by (auto simp: extract_market_cap_def parse_market_cap_def py_index_def)
qed

lemma market_cap_tag:
  "contents c = Tag n a cs # rest \<Longrightarrow> extract_market_cap c = Inl TypeError"
  by (simp add: extract_market_cap_def parse_market_cap_def py_index_def)

lemma extract_market_cap_error: "extract_market_cap c = Inl e \<Longrightarrow> e = TypeError"
proof (cases "contents c")
  case Nil
  then show "extract_market_cap c = Inl e \<Longrightarrow> e = TypeError" by (simp add: market_cap_no_contents)
next
  case (Cons raw rest)
  then show "extract_market_cap c = Inl e \<Longrightarrow> e = TypeError"
    by (cases raw) (auto simp: market_cap_tag market_cap_string)
qed

lemma extract_row_error: "extract_row row = Inl e \<Longrightarrow> e = TypeError"
  by (auto simp: extract_row_def Let_def extract_name_total split: if_splits sum.splits dest: extract_market_cap_error)

lemma extract_rows_error: "extract_rows rows df = Inl e \<Longrightarrow> e = TypeError"
  by (induction rows arbitrary: df) (auto split: sum.splits option.splits dest: extract_row_error)

lemma find_tag_None: "find_tag nm el = None \<longleftrightarrow> find_all nm el = []"
  by (simp add: find_tag_def split: list.splits)

subsection \<open>The conversion and the effects on the world\<close>

lemma convert_column_present:
  "exchange_rate code = Some rate \<Longrightarrow>
   convert_column exchange_rate code xs = Inr (map (\<lambda>x. np_round (fmul x rate) 2) xs)"
  by (induction xs) simp_all

lemma convert_column_missing:
  "exchange_rate code = None \<Longrightarrow> xs \<noteq> [] \<Longrightarrow>
   convert_column exchange_rate code xs = Inl (KeyError code)"
  by (cases xs) simp_all


lemma transform_sinks:
  "csv_file (snd (transform df exchange_rate w)) = csv_file w \<and>
   db_table (snd (transform df exchange_rate w)) = db_table w"
  by (simp add: transform_def Let_def log_progress_def split: sum.splits)

lemma extract_sinks:
  "csv_file (snd (extract_banks soup w)) = csv_file w \<and>
   db_table (snd (extract_banks soup w)) = db_table w"
  by (simp add: extract_banks_def Let_def log_progress_def split: sum.splits)

lemma extract_result_independent:
  "fst (extract_banks soup w) = fst (extract_banks soup w')"
  by (simp add: extract_banks_def Let_def split: sum.splits)

lemma transform_result_independent:
  "fst (transform df exchange_rate w) = fst (transform df exchange_rate w')"
  by (simp add: transform_def Let_def split: sum.splits)

lemma transform_missing:
  assumes "df \<noteq> []"
    and "exchange_rate ''GBP'' = None \<or> exchange_rate ''EUR'' = None \<or> exchange_rate ''INR'' = None"
  shows "fst (transform df exchange_rate w) =
     Inl (KeyError (if exchange_rate ''GBP'' = None then ''GBP''
                    else if exchange_rate ''EUR'' = None then ''EUR'' else ''INR''))"
proof -
  have ne: "map MC_USD_Billion df \<noteq> []" using assms(1) by simp
  show ?thesis
  proof (cases "exchange_rate ''GBP''")
    case None
    then show ?thesis by (simp add: transform_def Let_def convert_column_missing [OF _ ne])
  next
    case g: (Some gbp)
    show ?thesis
    proof (cases "exchange_rate ''EUR''")
      case None
      with g show ?thesis
        by (simp add: transform_def Let_def convert_column_missing [OF _ ne] convert_column_present)
    next
      case e: (Some eur)
      with g assms(2) have "exchange_rate ''INR'' = None" by auto
      with g e show ?thesis
        by (simp add: transform_def Let_def convert_column_missing [OF _ ne] convert_column_present)
    qed
  qed
qed

lemma main_extract_error:
  "fst (extract_banks soup w') = Inl e \<Longrightarrow>
   fst (main soup exchange_rate w) = Some e \<and>
   csv_file (snd (main soup exchange_rate w)) = csv_file w \<and>
   db_table (snd (main soup exchange_rate w)) = db_table w"
  using extract_result_independent [of soup w' "log_progress ''Preliminaries complete. Initiating ETL process.'' w"]
    extract_sinks [of soup "log_progress ''Preliminaries complete. Initiating ETL process.'' w"]
  by (auto simp: main_def Let_def log_progress_def split: prod.splits sum.splits)

lemma main_transform_error:
  assumes "fst (extract_banks soup w') = Inr df" and "fst (transform df exchange_rate w'') = Inl e"
  shows "fst (main soup exchange_rate w) = Some e \<and>
   csv_file (snd (main soup exchange_rate w)) = csv_file w \<and>
   db_table (snd (main soup exchange_rate w)) = db_table w"
proof -
  let ?w1 = "log_progress ''Preliminaries complete. Initiating ETL process.'' w"
  obtain w2 where x: "extract_banks soup ?w1 = (Inr df, w2)"
    using assms(1) extract_result_independent [of soup w' ?w1] by (metis prod.collapse)
  have s2: "csv_file w2 = csv_file w \<and> db_table w2 = db_table w"
    using extract_sinks [of soup ?w1] x by (simp add: log_progress_def)
  obtain w3 where t: "transform df exchange_rate w2 = (Inl e, w3)"
    using assms(2) transform_result_independent [of df exchange_rate w'' w2] by (metis prod.collapse)
  have s3: "csv_file w3 = csv_file w2 \<and> db_table w3 = db_table w2"
    using transform_sinks [of df exchange_rate w2] t by simp
  show ?thesis using x t s2 s3 by (simp add: main_def Let_def)
qed

subsection \<open>The rows of a page\<close>

lemma eligible_iff: "eligible row \<longleftrightarrow> 3 \<le> length (find_all ''td'' row)"
  by (auto simp: eligible_def find_tag_None)

lemma extract_row_not_eligible: "\<not> eligible row \<Longrightarrow> extract_row row = Inr None"
  by (auto simp: eligible_def extract_row_def Let_def)

lemma extract_row_eligible:
  "eligible row \<Longrightarrow>
   extract_row row =
     (case extract_market_cap (find_all ''td'' row ! 2) of
        Inl e \<Rightarrow> Inl e
      | Inr v \<Rightarrow> Inr (Some \<lparr>Name = projr (extract_name (find_all ''td'' row ! 1)), MC_USD_Billion = v\<rparr>))"
  by (auto simp: eligible_def extract_row_def Let_def extract_name_total split: sum.splits)

lemma extract_rows_append:
  "extract_rows rows df = (case extract_rows rows [] of Inl e \<Rightarrow> Inl e | Inr rs \<Rightarrow> Inr (df @ rs))"
proof (induction rows arbitrary: df)
  case Nil
  show ?case by simp
next
  case (Cons row rows)
  show ?case
  proof (cases "extract_row row")
    case (Inl e)
    then show ?thesis by simp
  next
    case (Inr r)
    show ?thesis
    proof (cases r)
      case None
      with Inr Cons.IH [of df] show ?thesis by simp
    next
      case (Some b)
      with Inr Cons.IH [of "df @ [b]"] Cons.IH [of "[b]"] show ?thesis
        by (simp split: sum.splits)
    qed
  qed
qed

text \<open>
  When no eligible row has an element at the start of its third cell, the loop returns
  one record for each eligible row, in the order of the rows.
\<close>

lemma extract_rows_one_record_per_eligible_row:
  assumes "\<forall>row \<in> set rows. eligible row \<longrightarrow> extract_market_cap (find_all ''td'' row ! 2) \<noteq> Inl TypeError"
  shows "extract_rows rows df =
     Inr (df @ map (\<lambda>row. \<lparr>Name = projr (extract_name (find_all ''td'' row ! 1)),
                           MC_USD_Billion = projr (extract_market_cap (find_all ''td'' row ! 2))\<rparr>)
                (filter eligible rows))"
  using assms
proof (induction rows arbitrary: df)
  case Nil
  show ?case by simp
next
  case (Cons row rows)
  show ?case
  proof (cases "eligible row")
    case False
    with Cons show ?thesis by (simp add: extract_row_not_eligible)
  next
    case True
    with Cons.prems have "extract_market_cap (find_all ''td'' row ! 2) \<noteq> Inl TypeError" by simp
    then obtain v where v: "extract_market_cap (find_all ''td'' row ! 2) = Inr v"
      using extract_market_cap_error by (cases "extract_market_cap (find_all ''td'' row ! 2)") auto
    with True Cons show ?thesis by (simp add: extract_row_eligible)
  qed
qed

lemma extract_one_record_per_eligible_row:
  assumes "find_all ''tbody'' soup \<noteq> []"
    and "find_all ''tr'' (find_all ''tbody'' soup ! 0) = rows" and "rows \<noteq> []"
    and "\<forall>row \<in> set rows. eligible row \<longrightarrow> extract_market_cap (find_all ''td'' row ! 2) \<noteq> Inl TypeError"
  shows "fst (extract_banks soup w) =
     Inr (map (\<lambda>row. \<lparr>Name = projr (extract_name (find_all ''td'' row ! 1)),
                      MC_USD_Billion = projr (extract_market_cap (find_all ''td'' row ! 2))\<rparr>)
           (filter eligible rows))"
  using assms(1,2,3) extract_rows_one_record_per_eligible_row [OF assms(4), of "[]"]
  by (simp add: extract_banks_def Let_def)

lemma extract_aborts_on_tag:
  assumes "find_all ''tbody'' soup \<noteq> []"
    and "row \<in> set (find_all ''tr'' (find_all ''tbody'' soup ! 0))" and "eligible row"
    and "contents (find_all ''td'' row ! 2) = Tag n a cs # rest"
  shows "fst (extract_banks soup w) = Inl TypeError"
proof -
  have r: "extract_row row = Inl TypeError"
    using assms(3,4) by (simp add: extract_row_eligible market_cap_tag)
  have "\<exists>e. extract_rows rows df = Inl e" if "row \<in> set rows" for rows df
    using that
  proof (induction rows arbitrary: df)
    case Nil
    then show ?case by simp
  next
    case (Cons x xs)
    then show ?case using r by (cases "x = row") (auto split: sum.splits option.splits)
  qed
  then obtain e where "extract_rows (find_all ''tr'' (find_all ''tbody'' soup ! 0)) [] = Inl e"
    using assms(2) by blast
  moreover from this have "e = TypeError" by (rule extract_rows_error)
  ultimately show ?thesis using assms(1,2) by (auto simp: extract_banks_def Let_def)
qed

section \<open>The example inputs, evaluated\<close>

lemmas markup_defs = tr_def td_def str_node_def page_of_rows_def

lemma get_text_Local_Bank:
  "get_text True (td [Tag ''span'' [] [str_node ''Local Bank'']]) = ascii ''Local Bank''"
  by (simp add: get_text_def List.map_filter_def Let_def markup_defs py_strip_def py_isspace_def
      ascii_def)

lemma float_of_row_A: "py_float (ascii ''100.5'') = Inr (binary64 1005 10)"
  by code_simp

lemma float_of_row_B: "py_float (butlast (ascii ''bad'')) = Inl ValueError"
  by code_simp


lemma float_of_row_good: "py_float (ascii ''200'') = Inr (binary64 200 1)"
  by code_simp

lemma cells_row_A:
  "find_all ''td'' row_A =
     [td [str_node ''1''],
      td [Tag ''a'' [] [Tag ''a'' [(''title'', ascii ''Global Bank'')] [str_node ''GB'']]],
      td [NavigableString (ascii ''100.5'' @ [8224])]]"
  by (simp add: row_A_def markup_defs find_all_def)

lemma cells_row_B:
  "find_all ''td'' row_B =
     [td [str_node ''2''], td [Tag ''span'' [] [str_node ''Local Bank'']], td [str_node ''bad'']]"
  by (simp add: row_B_def markup_defs find_all_def)



lemma cells_row_bold:
  "find_all ''td'' row_bold =
     [td [str_node ''1''], td [str_node ''Bold Bank''], td [Tag ''b'' [] [str_node ''100'']]]"
  by (simp add: row_bold_def markup_defs find_all_def)

lemma cells_row_good:
  "find_all ''td'' row_good =
     [td [str_node ''2''], td [str_node ''Good Bank''], td [NavigableString (ascii ''200'' @ [10])]]"
  by (simp add: row_good_def markup_defs find_all_def)

lemma extract_row_A:
  "extract_row row_A = Inr (Some \<lparr>Name = ascii ''Global Bank'', MC_USD_Billion = binary64 1005 10\<rparr>)"
proof -
  have e: "eligible row_A" by (simp add: eligible_iff cells_row_A)
  have c: "find_all ''td'' row_A ! 1 =
      td [Tag ''a'' [] [Tag ''a'' [(''title'', ascii ''Global Bank'')] [str_node ''GB'']]]"
    by (simp add: cells_row_A)
  have n: "extract_name (find_all ''td'' row_A ! 1) = Inr (ascii ''Global Bank'')"
    unfolding c
    by (simp add: extract_name_def title_of_second_anchor_def py_index_def
        getitem_attr_def find_all_def markup_defs)
  have m: "extract_market_cap (find_all ''td'' row_A ! 2) = Inr (binary64 1005 10)"
    using market_cap_string [of "find_all ''td'' row_A ! 2" _ "[]" "ascii ''100.5'' @ [8224]"]
    by (simp add: cells_row_A td_def float_of_row_A)
  show ?thesis using n m by (simp add: extract_row_eligible [OF e])
qed

lemma extract_row_B:
  "extract_row row_B = Inr (Some \<lparr>Name = ascii ''Local Bank'', MC_USD_Billion = Finite 0 (- 1074)\<rparr>)"
proof -
  have e: "eligible row_B" by (simp add: eligible_iff cells_row_B)
  have c: "find_all ''td'' row_B ! 1 = td [Tag ''span'' [] [str_node ''Local Bank'']]"
    by (simp add: cells_row_B)
  have n: "extract_name (find_all ''td'' row_B ! 1) = Inr (ascii ''Local Bank'')"
    unfolding c
    by (simp add: extract_name_def title_of_second_anchor_def py_index_def
        find_all_def get_text_Local_Bank)
      (simp add: markup_defs)
  have m: "extract_market_cap (find_all ''td'' row_B ! 2) = Inr (Finite 0 (- 1074))"
    using market_cap_string [of "find_all ''td'' row_B ! 2" _ "[]" "ascii ''bad''"]
    by (simp add: cells_row_B td_def str_node_def float_of_row_B)
  show ?thesis using n m by (simp add: extract_row_eligible [OF e])
qed

lemma rows_of_page: "find_all ''tbody'' (page_of_rows rows) \<noteq> []"
  by (simp add: page_of_rows_def find_all_def)

lemma extract_banks_page_of_rows:
  "find_all ''tr'' (find_all ''tbody'' (page_of_rows rows) ! 0) = rs \<Longrightarrow>
   fst (extract_banks (page_of_rows rows) w) =
     (if rs = [] then Inl (Exception ''No <tr> rows found in the first <tbody>'') else extract_rows rs [])"
  using rows_of_page [of rows] by (auto simp: extract_banks_def Let_def split: sum.splits)

lemma rows_example_page: "find_all ''tr'' (find_all ''tbody'' example_page ! 0) = [row_A, row_B]"
  by (simp add: example_page_def row_A_def row_B_def markup_defs find_all_def)

lemma extract_example_page:
  "fst (extract_banks example_page w) =
     Inr [\<lparr>Name = ascii ''Global Bank'', MC_USD_Billion = binary64 1005 10\<rparr>,
          \<lparr>Name = ascii ''Local Bank'', MC_USD_Billion = Finite 0 (- 1074)\<rparr>]"
  using extract_banks_page_of_rows [of "[row_A, row_B]" "[row_A, row_B]" w] rows_example_page
  by (simp add: example_page_def extract_row_A extract_row_B)

lemma extract_header_only: "fst (extract_banks page_header_only w) = Inr []"
  by (simp add: page_header_only_def markup_defs find_all_def extract_banks_def Let_def
      extract_row_def find_tag_def)





lemma extract_row_good:
  "extract_row row_good = Inr (Some \<lparr>Name = ascii ''Good Bank'', MC_USD_Billion = binary64 200 1\<rparr>)"
proof -
  have e: "eligible row_good" by (simp add: eligible_iff cells_row_good)
  have c: "find_all ''td'' row_good ! 1 = td [str_node ''Good Bank'']" by (simp add: cells_row_good)
  have n: "extract_name (find_all ''td'' row_good ! 1) = Inr (ascii ''Good Bank'')"
    unfolding c
    by (simp add: extract_name_def title_of_second_anchor_def py_index_def find_all_def markup_defs
        get_text_def List.map_filter_def Let_def py_strip_def py_isspace_def ascii_def)
  have m: "extract_market_cap (find_all ''td'' row_good ! 2) = Inr (binary64 200 1)"
    using market_cap_string [of "find_all ''td'' row_good ! 2" _ "[]" "ascii ''200'' @ [10]"]
    by (simp add: cells_row_good td_def float_of_row_good)
  show ?thesis using n m by (simp add: extract_row_eligible [OF e])
qed

lemma extract_row_bold: "extract_row row_bold = Inl TypeError"
proof -
  have e: "eligible row_bold" by (simp add: eligible_iff cells_row_bold)
  show ?thesis
    using market_cap_tag [of "find_all ''td'' row_bold ! 2" "''b''" "[]" "[str_node ''100'']" "[]"]
    by (simp add: extract_row_eligible [OF e] cells_row_bold td_def)
qed

lemma rows_good_then_bold:
  "find_all ''tr'' (find_all ''tbody'' page_good_then_bold ! 0) = [row_good, row_bold]"
  by (simp add: page_good_then_bold_def row_good_def row_bold_def markup_defs find_all_def)

lemma rows_bold_then_good:
  "find_all ''tr'' (find_all ''tbody'' page_bold_then_good ! 0) = [row_bold, row_good]"
  by (simp add: page_bold_then_good_def row_good_def row_bold_def markup_defs find_all_def)

lemma main_success:
  assumes "fst (extract_banks soup w') = Inr df" and "fst (transform df exchange_rate w'') = Inr dft"
  shows "fst (main soup exchange_rate w) = None \<and>
   csv_file (snd (main soup exchange_rate w)) = Some dft \<and>
   db_table (snd (main soup exchange_rate w)) = Some dft"
proof -
  let ?w1 = "log_progress ''Preliminaries complete. Initiating ETL process.'' w"
  obtain w2 where x: "extract_banks soup ?w1 = (Inr df, w2)"
    using assms(1) extract_result_independent [of soup w' ?w1] by (metis prod.collapse)
  obtain w3 where t: "transform df exchange_rate w2 = (Inr dft, w3)"
    using assms(2) transform_result_independent [of df exchange_rate w'' w2] by (metis prod.collapse)
  show ?thesis using x t
    by (simp add: main_def Let_def load_to_csv_def load_to_db_def run_query_def log_progress_def)
qed

lemma example_products:
  "np_round (fmul (binary64 1005 10) (binary64 8 10)) 2 = binary64 804 10"
  "np_round (fmul (binary64 1005 10) (binary64 9 10)) 2 = binary64 9045 100"
  "np_round (fmul (binary64 1005 10) (binary64 80 1)) 2 = binary64 8040 1"
  "np_round (fmul (Finite 0 (- 1074)) (binary64 8 10)) 2 = Finite 0 (- 1074)"
  "np_round (fmul (Finite 0 (- 1074)) (binary64 9 10)) 2 = Finite 0 (- 1074)"
  "np_round (fmul (Finite 0 (- 1074)) (binary64 80 1)) 2 = Finite 0 (- 1074)"
  by code_simp+

section \<open>The claims\<close>

subsection \<open>C1: one record for each eligible row\<close>

text \<open>
  Claim C1. For every page whose first table body has rows, \<open>extract\<close> returns one
  record for each eligible row (a row with a data cell and no fewer than three of
  them), in the order of the rows, and no record for any other row. The loop does so
  whenever it reaches its end (\<open>extract_one_record_per_eligible_row\<close> above). It does
  not reach it on the page below: both rows are eligible, the first one alone gives a
  record, and at the second one, whose third cell \<open><td><b>100</b></td>\<close> starts with an
  element, the slice of line 70 raises \<open>TypeError\<close>, which the handler of line 72 does
  not catch. No record is returned where the claim counts two.
\<close>

theorem no_records_for_two_eligible_rows:
  "find_all ''tr'' (find_all ''tbody'' page_good_then_bold ! 0) = [row_good, row_bold] \<and>
   eligible row_good \<and> eligible row_bold \<and>
   extract_row row_good =
     Inr (Some \<lparr>Name = ascii ''Good Bank'', MC_USD_Billion = binary64 200 1\<rparr>) \<and>
   extract_row row_bold = Inl TypeError \<and>
   fst (extract_banks page_good_then_bold initial_world) = Inl TypeError"
proof -
  have eg: "eligible row_good" by (simp add: eligible_iff cells_row_good)
  have eb: "eligible row_bold" by (simp add: eligible_iff cells_row_bold)
  have x: "fst (extract_banks page_good_then_bold initial_world) = Inl TypeError"
    using extract_banks_page_of_rows
      [OF rows_good_then_bold [unfolded page_good_then_bold_def], of initial_world]
    by (simp add: page_good_then_bold_def extract_row_good extract_row_bold)
  show ?thesis using rows_good_then_bold eg eb extract_row_good extract_row_bold x by simp
qed

subsection \<open>C2: the derived columns\<close>



subsection \<open>C3: a missing rate\<close>

text \<open>
  Claim C3 as it is stated, for every frame, fails on the empty frame. Each
  comprehension of lines 104 to 106 looks the rate up once for every element, so with
  no record no rate is looked up: \<open>transform\<close> returns the empty frame although the rate
  of the euro is missing, and on a page whose table has a header row only the run
  goes on and writes both sinks.
\<close>

theorem missing_rate_ignored_on_empty_frame:
  "rates_without_EUR ''EUR'' = None \<and>
   fst (transform [] rates_without_EUR initial_world) = Inr [] \<and>
   fst (extract_banks page_header_only initial_world) = Inr [] \<and>
   fst (main page_header_only rates_without_EUR initial_world) = None \<and>
   csv_file (snd (main page_header_only rates_without_EUR initial_world)) = Some [] \<and>
   db_table (snd (main page_header_only rates_without_EUR initial_world)) = Some []"
proof -
  have t: "fst (transform [] rates_without_EUR w) = Inr []" for w
    by (simp add: transform_def Let_def)
  show ?thesis
    using t [of initial_world] main_success [OF extract_header_only t, of initial_world]
      extract_header_only [of initial_world]
    by (simp add: rates_without_EUR_def)
qed

text \<open>
  Claim C3, amended. For every frame that is not empty and every rate table that
  lacks one of \<open>GBP\<close>, \<open>EUR\<close>, \<open>INR\<close>, \<open>transform\<close> raises \<open>KeyError\<close> for a missing code,
  and the run that extracted this frame ends with that exception before either sink
  is written.
\<close>

theorem transform_fails_on_missing_rate:
  assumes "df \<noteq> []"
    and "exchange_rate ''GBP'' = None \<or> exchange_rate ''EUR'' = None \<or> exchange_rate ''INR'' = None"
    and "fst (extract_banks soup w) = Inr df"
  shows "(\<exists>code. (code = ''GBP'' \<or> code = ''EUR'' \<or> code = ''INR'') \<and> exchange_rate code = None \<and>
            fst (transform df exchange_rate w') = Inl (KeyError code) \<and>
            fst (main soup exchange_rate w) = Some (KeyError code)) \<and>
         csv_file (snd (main soup exchange_rate w)) = csv_file w \<and>
         db_table (snd (main soup exchange_rate w)) = db_table w"
proof -
  define code where "code = (if exchange_rate ''GBP'' = None then ''GBP''
                    else if exchange_rate ''EUR'' = None then ''EUR'' else ''INR'')"
  have t: "fst (transform df exchange_rate w') = Inl (KeyError code)"
    unfolding code_def by (rule transform_missing [OF assms(1,2)])
  have c: "(code = ''GBP'' \<or> code = ''EUR'' \<or> code = ''INR'') \<and> exchange_rate code = None"
    using assms(2) by (auto simp: code_def)
  from main_transform_error [OF assms(3) t, of w] c t show ?thesis by blast
qed

theorem transform_fails_on_missing_rate_witness:
  "fst (transform [\<lparr>Name = ascii ''Global Bank'', MC_USD_Billion = binary64 1005 10\<rparr>,
                   \<lparr>Name = ascii ''Local Bank'', MC_USD_Billion = Finite 0 (- 1074)\<rparr>]
          rates_without_EUR initial_world) = Inl (KeyError ''EUR'') \<and>
   fst (main example_page rates_without_EUR initial_world) = Some (KeyError ''EUR'') \<and>
   csv_file (snd (main example_page rates_without_EUR initial_world)) = None \<and>
   db_table (snd (main example_page rates_without_EUR initial_world)) = None"
proof -
  have r: "rates_without_EUR ''GBP'' = None \<or> rates_without_EUR ''EUR'' = None \<or>
           rates_without_EUR ''INR'' = None"
    by (simp add: rates_without_EUR_def)
  have g: "rates_without_EUR ''GBP'' \<noteq> None" "rates_without_EUR ''INR'' \<noteq> None"
    by (simp_all add: rates_without_EUR_def)
  from transform_fails_on_missing_rate [OF _ r extract_example_page, of initial_world initial_world] g
  show ?thesis by (auto simp: initial_world_def)
qed

subsection \<open>C4: the name of a bank\<close>




subsection \<open>C5: the default of the market capitalisation\<close>



subsection \<open>C6: anomalies of a row\<close>

text \<open>
  Claim C6. No malformed content of a cell aborts the extraction. The handler of the
  market capitalisation catches \<open>IndexError\<close> and \<open>ValueError\<close> only, while the handler
  of the name next to it catches \<open>TypeError\<close> and \<open>KeyError\<close> too. A third cell that
  starts with an element makes the slice of line 70 raise \<open>TypeError\<close>
  (\<open>extract_aborts_on_tag\<close> above, for every page). On the page below the first row
  has such a cell: \<open>extract\<close> raises, the second row, which gives a record on its own,
  is never reached, and the run ends with nothing written.
\<close>

theorem element_in_metric_cell_aborts_extraction:
  "find_all ''tr'' (find_all ''tbody'' page_bold_then_good ! 0) = [row_bold, row_good] \<and>
   contents (find_all ''td'' row_bold ! 2) = [Tag ''b'' [] [str_node ''100'']] \<and>
   extract_row row_bold = Inl TypeError \<and>
   extract_row row_good =
     Inr (Some \<lparr>Name = ascii ''Good Bank'', MC_USD_Billion = binary64 200 1\<rparr>) \<and>
   fst (extract_banks page_bold_then_good initial_world) = Inl TypeError \<and>
   fst (main page_bold_then_good example_rates initial_world) = Some TypeError \<and>
   csv_file (snd (main page_bold_then_good example_rates initial_world)) = None \<and>
   db_table (snd (main page_bold_then_good example_rates initial_world)) = None"
proof -
  have c: "contents (find_all ''td'' row_bold ! 2) = [Tag ''b'' [] [str_node ''100'']]"
    by (simp add: cells_row_bold td_def)
  have x: "fst (extract_banks page_bold_then_good initial_world) = Inl TypeError"
    using extract_banks_page_of_rows
      [OF rows_bold_then_good [unfolded page_bold_then_good_def], of initial_world]
    by (simp add: page_bold_then_good_def extract_row_bold)
  show ?thesis
    using rows_bold_then_good c extract_row_bold extract_row_good x
      main_extract_error [OF x, of example_rates initial_world]
    by (simp add: initial_world_def)
qed

subsection \<open>C7: purity of the conversion\<close>

text \<open>
  Claim C7 as it is stated fails in its second half: \<open>transform\<close> does log. On the
  empty log it leaves two lines.
\<close>

theorem transform_writes_to_log:
  "code_log initial_world = [] \<and>
   code_log (snd (transform [] example_rates initial_world)) =
     [''Starting data transformation.'',
      ''Data transformation complete. Initiating Loading process.'']"
  by (simp add: transform_def Let_def log_progress_def initial_world_def)

text \<open>
  Claim C7, amended. \<open>transform\<close> is deterministic in its two arguments: its result,
  the derived columns or the exception, is the same whatever the state of the log and
  of the sinks, and it writes to neither sink. It does write to the log: the line
  that announces the transformation, and after a successful conversion the line that
  announces its end.
\<close>

theorem transform_deterministic_but_logs:
  "fst (transform df exchange_rate w) = fst (transform df exchange_rate w') \<and>
   csv_file (snd (transform df exchange_rate w)) = csv_file w \<and>
   db_table (snd (transform df exchange_rate w)) = db_table w \<and>
   code_log (snd (transform df exchange_rate w)) =
     code_log w @
       (case fst (transform df exchange_rate w) of
          Inl e \<Rightarrow> [''Starting data transformation.'']
        | Inr d \<Rightarrow> [''Starting data transformation.'',
                   ''Data transformation complete. Initiating Loading process.''])"
proof -
  have "code_log (snd (transform df exchange_rate w)) =
     code_log w @
       (case fst (transform df exchange_rate w) of
          Inl e \<Rightarrow> [''Starting data transformation.'']
        | Inr d \<Rightarrow> [''Starting data transformation.'',
                   ''Data transformation complete. Initiating Loading process.''])"
    by (simp add: transform_def Let_def log_progress_def split: sum.splits)
  with transform_result_independent [of df exchange_rate w w'] transform_sinks [of df exchange_rate w]
  show ?thesis by simp
qed

subsection \<open>C8: the structural errors\<close>

text \<open>
  Claim C8. \<open>extract\<close> raises the exception for a missing table body exactly when the
  page has no \<open>tbody\<close> element, and the exception for missing rows exactly when the
  first \<open>tbody\<close> element has no \<open>tr\<close> element below it. In both cases the run ends
  with that exception and neither the CSV file nor the database table is written.
\<close>

theorem structural_errors_abort_the_run:
  "(fst (extract_banks soup w) = Inl (Exception ''No <tbody> found in the page'') \<longleftrightarrow>
      find_all ''tbody'' soup = []) \<and>
   (fst (extract_banks soup w) = Inl (Exception ''No <tr> rows found in the first <tbody>'') \<longleftrightarrow>
      find_all ''tbody'' soup \<noteq> [] \<and> find_all ''tr'' (find_all ''tbody'' soup ! 0) = []) \<and>
   (find_all ''tbody'' soup = [] \<or> find_all ''tr'' (find_all ''tbody'' soup ! 0) = [] \<longrightarrow>
      fst (main soup exchange_rate w) =
        Some (Exception (if find_all ''tbody'' soup = [] then ''No <tbody> found in the page''
                         else ''No <tr> rows found in the first <tbody>'')) \<and>
      csv_file (snd (main soup exchange_rate w)) = csv_file w \<and>
      db_table (snd (main soup exchange_rate w)) = db_table w)"
proof -
  have noexc: "extract_rows rows [] \<noteq> Inl (Exception msg)" for rows msg
    using extract_rows_error [of rows "[]" "Exception msg"] by auto
  have a: "fst (extract_banks soup w) = Inl (Exception ''No <tbody> found in the page'') \<longleftrightarrow>
      find_all ''tbody'' soup = []"
    using noexc by (auto simp: extract_banks_def Let_def split: sum.splits)
  have b: "fst (extract_banks soup w) = Inl (Exception ''No <tr> rows found in the first <tbody>'') \<longleftrightarrow>
      find_all ''tbody'' soup \<noteq> [] \<and> find_all ''tr'' (find_all ''tbody'' soup ! 0) = []"
    using noexc by (auto simp: extract_banks_def Let_def split: sum.splits)
  have c: "fst (extract_banks soup w) =
        Inl (Exception (if find_all ''tbody'' soup = [] then ''No <tbody> found in the page''
                         else ''No <tr> rows found in the first <tbody>''))"
    if "find_all ''tbody'' soup = [] \<or> find_all ''tr'' (find_all ''tbody'' soup ! 0) = []"
    using that by (auto simp: extract_banks_def Let_def)
  show ?thesis using a b main_extract_error [OF c, of exchange_rate w] by blast
qed

theorem structural_errors_abort_the_run_witness:
  "find_all ''tbody'' page_no_tbody = [] \<and>
   fst (extract_banks page_no_tbody initial_world) =
     Inl (Exception ''No <tbody> found in the page'') \<and>
   fst (main page_no_tbody example_rates initial_world) =
     Some (Exception ''No <tbody> found in the page'') \<and>
   csv_file (snd (main page_no_tbody example_rates initial_world)) = None \<and>
   db_table (snd (main page_no_tbody example_rates initial_world)) = None \<and>
   find_all ''tbody'' page_no_rows = [Tag ''tbody'' [] []] \<and>
   find_all ''tr'' (find_all ''tbody'' page_no_rows ! 0) = [] \<and>
   fst (extract_banks page_no_rows initial_world) =
     Inl (Exception ''No <tr> rows found in the first <tbody>'') \<and>
   fst (main page_no_rows example_rates initial_world) =
     Some (Exception ''No <tr> rows found in the first <tbody>'') \<and>
   csv_file (snd (main page_no_rows example_rates initial_world)) = None \<and>
   db_table (snd (main page_no_rows example_rates initial_world)) = None"
proof -
  have n: "find_all ''tbody'' page_no_tbody = []"
    by (simp add: page_no_tbody_def find_all_def str_node_def)
  have b: "find_all ''tbody'' page_no_rows = [Tag ''tbody'' [] []]"
    by (simp add: page_no_rows_def page_of_rows_def find_all_def)
  have r: "find_all ''tr'' (find_all ''tbody'' page_no_rows ! 0) = []"
    by (simp add: b) (simp add: find_all_def)
  from structural_errors_abort_the_run [of page_no_tbody initial_world example_rates]
    structural_errors_abort_the_run [of page_no_rows initial_world example_rates] n b r
  show ?thesis by (simp add: initial_world_def)
qed

subsection \<open>C9: the end-to-end example\<close>

text \<open>
  Claim C9. On the table with the rows A and B and with the rates 0.8, 0.9 and 80.0,
  \<open>extract\<close> gives the records (Global Bank, 100.5) and (Local Bank, 0.0), and
  \<open>transform\<close> adds 80.4, 90.45, 8040.0 to the first and 0.0, 0.0, 0.0 to the second;
  this is the frame that the run writes. A decimal such as 80.4 stands for the binary64
  number nearest to it, \<open>binary64 804 10\<close>, as the literal does in Python.
\<close>

theorem end_to_end_example:
  "fst (extract_banks example_page w) =
     Inr [\<lparr>Name = ascii ''Global Bank'', MC_USD_Billion = binary64 1005 10\<rparr>,
          \<lparr>Name = ascii ''Local Bank'', MC_USD_Billion = Finite 0 (- 1074)\<rparr>] \<and>
   fst (transform [\<lparr>Name = ascii ''Global Bank'', MC_USD_Billion = binary64 1005 10\<rparr>,
                   \<lparr>Name = ascii ''Local Bank'', MC_USD_Billion = Finite 0 (- 1074)\<rparr>]
          example_rates w') =
     Inr [\<lparr>Name = ascii ''Global Bank'', MC_USD_Billion = binary64 1005 10,
           MC_GBP_Billion = binary64 804 10, MC_EUR_Billion = binary64 9045 100,
           MC_INR_Billion = binary64 8040 1\<rparr>,
          \<lparr>Name = ascii ''Local Bank'', MC_USD_Billion = Finite 0 (- 1074),
           MC_GBP_Billion = Finite 0 (- 1074), MC_EUR_Billion = Finite 0 (- 1074),
           MC_INR_Billion = Finite 0 (- 1074)\<rparr>] \<and>
   csv_file (snd (main example_page example_rates w)) =
     Some [\<lparr>Name = ascii ''Global Bank'', MC_USD_Billion = binary64 1005 10,
           MC_GBP_Billion = binary64 804 10, MC_EUR_Billion = binary64 9045 100,
           MC_INR_Billion = binary64 8040 1\<rparr>,
          \<lparr>Name = ascii ''Local Bank'', MC_USD_Billion = Finite 0 (- 1074),
           MC_GBP_Billion = Finite 0 (- 1074), MC_EUR_Billion = Finite 0 (- 1074),
           MC_INR_Billion = Finite 0 (- 1074)\<rparr>]"
proof -
  let ?df = "[\<lparr>Name = ascii ''Global Bank'', MC_USD_Billion = binary64 1005 10\<rparr>,
              \<lparr>Name = ascii ''Local Bank'', MC_USD_Billion = Finite 0 (- 1074)\<rparr>]"
  have r: "example_rates ''GBP'' = Some (binary64 8 10)" "example_rates ''EUR'' = Some (binary64 9 10)"
    "example_rates ''INR'' = Some (binary64 80 1)"
    by (simp_all add: example_rates_def)
  have t: "fst (transform ?df example_rates v) =
     Inr [\<lparr>Name = ascii ''Global Bank'', MC_USD_Billion = binary64 1005 10,
           MC_GBP_Billion = binary64 804 10, MC_EUR_Billion = binary64 9045 100,
           MC_INR_Billion = binary64 8040 1\<rparr>,
          \<lparr>Name = ascii ''Local Bank'', MC_USD_Billion = Finite 0 (- 1074),
           MC_GBP_Billion = Finite 0 (- 1074), MC_EUR_Billion = Finite 0 (- 1074),
           MC_INR_Billion = Finite 0 (- 1074)\<rparr>]" for v
    using r by (simp add: transform_def Let_def example_products)
  show ?thesis
    using extract_example_page [of w] t [of w'] main_success [OF extract_example_page t, of w]
    by simp
qed

subsection \<open>C10: the last character is always dropped\<close>



end
